theory Spec2Isabelle
  imports Complex_Main "HOL-Library.Word"
begin

unbundle bit_operations_syntax

section \<open>Circle detection, annotation, extraction and statistics\<close>

text \<open>
  A shallow embedding of the class \<^verbatim>\<open>CircleDetector\<close> of \<^verbatim>\<open>circle_detector.py\<close>.

  Modelling conventions.
  \<^item> A numpy array of two index dimensions is a record of its two extents and an indexing
    function; \<open>item a i j\<close> is \<^verbatim>\<open>a[i, j]\<close> (row \<open>i\<close>, column \<open>j\<close>). Only the
    values at indices below the extents are pixels of the array. A colour image stores a
    list of channel bytes per pixel, a mask or grayscale image a single byte.
  \<^item> Python and numpy integers are unbounded \<open>int\<close>; numpy floats are modelled as
    exact reals.
  \<^item> The OpenCV routines whose result is not determined by the source (colour
    conversion, median blur, the Hough search, the pixel sets covered by a drawn circle
    or a rendered text) are parameters, collected in the record \<open>opencv\<close>.
    Drawing sets every covered pixel to the given colour, in place, and keeps the extents.
  \<^item> The source's variable \<^verbatim>\<open>image\<close> is written \<open>img\<close>, and \<^verbatim>\<open>mask\<close> is written
    \<open>msk\<close>, since both names are constants of the logic.
  \<^item> Files are read through a map from paths to decoded images; files written by
    \<^verbatim>\<open>cv.imwrite\<close> are returned as a list of path and image, in the order written.
    Directory creation and console output are not modelled, nor are failures raised
    inside OpenCV's drawing and encoding routines.
\<close>

subsection \<open>Arrays and images\<close>

record 'a ndarray =
  shape0 :: nat
  shape1 :: nat
  item :: "nat \<Rightarrow> nat \<Rightarrow> 'a"

type_synonym pixel = "8 word list"
type_synonym image = "pixel ndarray"
type_synonym gray_image = "8 word ndarray"

type_synonym circle = "int \<times> int \<times> int"

datatype error = ValueError string | AttributeError | TypeError | CvError string

text \<open>\<^verbatim>\<open>np.zeros((h, w), dtype=np.uint8)\<close>\<close>

definition np_zeros :: "nat \<Rightarrow> nat \<Rightarrow> gray_image" where
  "np_zeros h w = \<lparr>shape0 = h, shape1 = w, item = (\<lambda>i j. 0)\<rparr>"

text \<open>
  The bounds of a Python slice \<^verbatim>\<open>[start:stop]\<close> on an axis of extent \<open>n\<close>: a negative
  index counts from the end, both indices are clipped to \<open>0..n\<close>, and a stop before the
  start gives the empty range.
\<close>

definition clip_index :: "nat \<Rightarrow> int \<Rightarrow> nat" where
  "clip_index n i = (if i < 0 then nat (max 0 (int n + i)) else min n (nat i))"

definition slice_bounds :: "nat \<Rightarrow> int \<Rightarrow> int \<Rightarrow> nat \<times> nat" where
  "slice_bounds n start stop =
     (let s = clip_index n start; e = clip_index n stop
      in (s, if e < s then s else e))"

text \<open>\<^verbatim>\<open>a[y1:y2, x1:x2]\<close>\<close>

definition slice2 :: "'a ndarray \<Rightarrow> int \<Rightarrow> int \<Rightarrow> int \<Rightarrow> int \<Rightarrow> 'a ndarray" where
  "slice2 a y1 y2 x1 x2 =
     (let (r0, r1) = slice_bounds (shape0 a) y1 y2;
          (c0, c1) = slice_bounds (shape1 a) x1 x2
      in \<lparr>shape0 = r1 - r0, shape1 = c1 - c0, item = (\<lambda>i j. item a (r0 + i) (c0 + j))\<rparr>)"

text \<open>
  \<^verbatim>\<open>cv.bitwise_and(src1, src2, mask=mask)\<close> into a fresh destination: where the mask is
  non-zero the channel-wise conjunction of the two sources, zero in every channel
  elsewhere.
\<close>

definition bitwise_and :: "image \<Rightarrow> image \<Rightarrow> gray_image \<Rightarrow> image" where
  "bitwise_and src1 src2 msk =
     \<lparr>shape0 = shape0 src1, shape1 = shape1 src1,
      item = (\<lambda>i j. if item msk i j \<noteq> 0
                     then map2 (AND) (item src1 i j) (item src2 i j)
                     else map (\<lambda>c. 0) (item src1 i j))\<rparr>"

subsection \<open>The OpenCV routines taken as parameters\<close>

record opencv =
  cvtColor_BGR2GRAY :: "image \<Rightarrow> gray_image"
  medianBlur :: "gray_image \<Rightarrow> int \<Rightarrow> gray_image"
  HoughCircles :: "gray_image \<Rightarrow> real \<Rightarrow> int \<Rightarrow> int \<Rightarrow> int \<Rightarrow> int \<Rightarrow> int
                     \<Rightarrow> error + (real \<times> real \<times> real) list option"
  circle_covers :: "int \<times> int \<Rightarrow> int \<Rightarrow> int \<Rightarrow> int \<times> int \<Rightarrow> bool"
  putText_covers :: "string \<Rightarrow> int \<times> int \<Rightarrow> real \<Rightarrow> int \<Rightarrow> int \<times> int \<Rightarrow> bool"

text \<open>
  Painting: every pixel \<open>(x, y)\<close> (column, row) of the covered set takes the colour.
\<close>

definition paint :: "'a ndarray \<Rightarrow> (int \<times> int \<Rightarrow> bool) \<Rightarrow> 'a \<Rightarrow> 'a ndarray" where
  "paint a covers colour =
     a\<lparr>item := (\<lambda>i j. if covers (int j, int i) then colour else item a i j)\<rparr>"

text \<open>\<^verbatim>\<open>cv.circle(img, center, radius, color, thickness)\<close>\<close>

definition cv_circle :: "opencv \<Rightarrow> 'a ndarray \<Rightarrow> int \<times> int \<Rightarrow> int \<Rightarrow> 'a \<Rightarrow> int \<Rightarrow> 'a ndarray" where
  "cv_circle cv img center radius colour thickness =
     paint img (circle_covers cv center radius thickness) colour"

text \<open>\<^verbatim>\<open>cv.putText(img, text, org, FONT_HERSHEY_SIMPLEX, fontScale, color, thickness)\<close>\<close>

definition cv_putText :: "opencv \<Rightarrow> 'a ndarray \<Rightarrow> string \<Rightarrow> int \<times> int \<Rightarrow> real \<Rightarrow> 'a \<Rightarrow> int \<Rightarrow> 'a ndarray" where
  "cv_putText cv img txt org fontScale colour thickness =
     paint img (putText_covers cv txt org fontScale thickness) colour"

text \<open>
  \<^verbatim>\<open>cv.imread(path)\<close>: the decoded file, or \<^verbatim>\<open>None\<close> when the file is missing, cannot
  be decoded, or decodes to an empty matrix (no rows or no columns).
\<close>

type_synonym filesystem = "string \<Rightarrow> image option"

definition imread :: "filesystem \<Rightarrow> string \<Rightarrow> image option" where
  "imread fs path =
     (case fs path of
        None \<Rightarrow> None
      | Some img \<Rightarrow> if shape0 img = 0 \<or> shape1 img = 0 then None else Some img)"

subsection \<open>Statistics: \<^verbatim>\<open>get_circle_info\<close>\<close>

datatype pyval =
    PyInt int
  | PyFloat real
  | PyList "pyval list"
  | PyDict "(string \<times> pyval) list"

text \<open>\<^verbatim>\<open>np.mean\<close>, \<^verbatim>\<open>np.min\<close>, \<^verbatim>\<open>np.max\<close> and \<^verbatim>\<open>np.std\<close> (which is
  \<^verbatim>\<open>sqrt(mean(abs(x - x.mean())**2))\<close>) on a one-dimensional integer array.\<close>

definition np_mean :: "int list \<Rightarrow> real" where
  "np_mean xs = real_of_int (sum_list xs) / real (length xs)"

definition np_min :: "int list \<Rightarrow> int" where
  "np_min xs = Min (set xs)"

definition np_max :: "int list \<Rightarrow> int" where
  "np_max xs = Max (set xs)"

definition np_std :: "int list \<Rightarrow> real" where
  "np_std xs =
     sqrt (sum_list (map (\<lambda>x. \<bar>real_of_int x - np_mean xs\<bar> ^ 2) xs) / real (length xs))"

definition circle_entry :: "circle \<Rightarrow> pyval" where
  "circle_entry c =
     (case c of (x, y, r) \<Rightarrow> PyDict [(''x'', PyInt x), (''y'', PyInt y), (''radius'', PyInt r)])"

definition get_circle_info :: "circle list option \<Rightarrow> (string \<times> pyval) list" where
  "get_circle_info circles =
     (if circles = None \<or> length (the circles) = 0 then [(''count'', PyInt 0)]
      else
        let cs = the circles;
            radii = map (\<lambda>(x, y, r). r) cs
        in [(''count'', PyInt (int (length cs))),
            (''average_radius'', PyFloat (np_mean radii)),
            (''min_radius'', PyInt (np_min radii)),
            (''max_radius'', PyInt (np_max radii)),
            (''std_radius'', PyFloat (np_std radii)),
            (''circles'', PyList (map circle_entry cs))])"

subsection \<open>Detection: \<^verbatim>\<open>detect_circles\<close>\<close>

record CircleDetector =
  min_radius :: int
  max_radius :: int

text \<open>\<^verbatim>\<open>np.round\<close> rounds to the nearest integer, a half to the even neighbour.\<close>

definition np_round :: "real \<Rightarrow> int" where
  "np_round v =
     (let f = \<lfloor>v\<rfloor>; d = v - of_int f
      in if d < 1 / 2 then f else if 1 / 2 < d then f + 1 else if even f then f else f + 1)"

definition detect_circles ::
  "opencv \<Rightarrow> CircleDetector \<Rightarrow> filesystem \<Rightarrow> string \<Rightarrow> real \<Rightarrow> int \<Rightarrow> int \<Rightarrow> int
     \<Rightarrow> error + circle list option" where
  "detect_circles cv self fs image_path dp min_dist param1 param2 =
     (case imread fs image_path of
        None \<Rightarrow> Inl (ValueError (''Cannot read image from '' @ image_path))
      | Some img \<Rightarrow>
          let gray = cvtColor_BGR2GRAY cv img;
              gray = medianBlur cv gray 5
          in case HoughCircles cv gray dp min_dist param1 param2
                    (min_radius self) (max_radius self) of
               Inl e \<Rightarrow> Inl e
             | Inr None \<Rightarrow> Inr None
             | Inr (Some circles) \<Rightarrow>
                 Inr (Some (map (\<lambda>(x, y, r). (np_round x, np_round y, np_round r)) circles)))"

subsection \<open>Strings and paths\<close>

definition digit_char :: "nat \<Rightarrow> char" where
  "digit_char d = ''0123456789'' ! d"

fun str_nat :: "nat \<Rightarrow> string" where
  "str_nat n = (if n < 10 then [digit_char n] else str_nat (n div 10) @ [digit_char (n mod 10)])"

declare str_nat.simps [simp del]

definition str_int :: "int \<Rightarrow> string" where
  "str_int i = (if i < 0 then ''-'' @ str_nat (nat (- i)) else str_nat (nat i))"

text \<open>\<^verbatim>\<open>os.path.join(a, b)\<close> on a POSIX system.\<close>

definition path_join :: "string \<Rightarrow> string \<Rightarrow> string" where
  "path_join a b =
     (if b \<noteq> [] \<and> hd b = CHR ''/'' then b
      else if a = [] \<or> last a = CHR ''/'' then a @ b
      else a @ ''/'' @ b)"

subsection \<open>Extraction: \<^verbatim>\<open>extract_circles\<close>\<close>

text \<open>The crop bounds \<open>(x1, y1, x2, y2)\<close> of one circle.\<close>

definition crop_box :: "'a ndarray \<Rightarrow> circle \<Rightarrow> int \<times> int \<times> int \<times> int" where
  "crop_box img c =
     (case c of (x, y, r) \<Rightarrow>
        let x1 = max 0 (x - r);
            y1 = max 0 (y - r);
            x2 = min (int (shape1 img)) (x + r);
            y2 = min (int (shape0 img)) (y + r)
        in (x1, y1, x2, y2))"

text \<open>The body of the loop up to the masked crop \<^verbatim>\<open>result\<close>.\<close>

definition extract_one :: "opencv \<Rightarrow> image \<Rightarrow> circle \<Rightarrow> image" where
  "extract_one cv img c =
     (case c of (x, y, r) \<Rightarrow>
        let msk = np_zeros (shape0 img) (shape1 img);
            msk = cv_circle cv msk (x, y) r 255 (- 1);
            (x1, y1, x2, y2) = crop_box img c;
            cropped = slice2 img y1 y2 x1 x2;
            mask_cropped = slice2 msk y1 y2 x1 x2
        in bitwise_and cropped cropped mask_cropped)"

definition circle_path :: "string \<Rightarrow> nat \<Rightarrow> string" where
  "circle_path output_dir i = path_join output_dir (''circle_'' @ str_int (int i + 1) @ ''.png'')"

text \<open>
  The loop over \<^verbatim>\<open>enumerate(circles)\<close>. The state is the list \<^verbatim>\<open>extracted_paths\<close>
  and the files written so far. The image is first used inside the body, where an
  unreadable one raises \<^verbatim>\<open>AttributeError\<close> (\<^verbatim>\<open>None\<close> has no \<^verbatim>\<open>shape\<close>).
\<close>

fun extract_loop ::
  "opencv \<Rightarrow> image option \<Rightarrow> string \<Rightarrow> nat \<Rightarrow> circle list
     \<Rightarrow> string list \<times> (string \<times> image) list
     \<Rightarrow> error + string list \<times> (string \<times> image) list" where
  "extract_loop cv img output_dir i [] st = Inr st"
| "extract_loop cv img output_dir i (c # cs) (extracted_paths, written) =
     (case img of
        None \<Rightarrow> Inl AttributeError
      | Some a \<Rightarrow>
          let result = extract_one cv a c;
              output_path = circle_path output_dir i
          in extract_loop cv img output_dir (Suc i) cs
               (extracted_paths @ [output_path], written @ [(output_path, result)]))"

text \<open>
  The argument \<^verbatim>\<open>circles\<close> is an array of circles or \<^verbatim>\<open>None\<close>, the value
  \<^verbatim>\<open>detect_circles\<close> returns when nothing is found. \<^verbatim>\<open>enumerate(None)\<close> raises
  \<^verbatim>\<open>TypeError\<close>, after the image was read.
\<close>

definition extract_circles ::
  "opencv \<Rightarrow> filesystem \<Rightarrow> string \<Rightarrow> circle list option \<Rightarrow> string
     \<Rightarrow> error + string list \<times> (string \<times> image) list" where
  "extract_circles cv fs image_path circles output_dir =
     (let img = imread fs image_path
      in case circles of
           None \<Rightarrow> Inl TypeError
         | Some cs \<Rightarrow> extract_loop cv img output_dir 0 cs ([], []))"

subsection \<open>Annotation: \<^verbatim>\<open>draw_circles\<close>\<close>

text \<open>
  The drawing calls mutate an array in place, so the arrays live in a store: a heap from
  addresses to arrays and the next free address.
\<close>

record store =
  heap :: "nat \<Rightarrow> image option"
  next_addr :: nat

definition alloc :: "image \<Rightarrow> store \<Rightarrow> nat \<times> store" where
  "alloc img s =
     (next_addr s, \<lparr>heap = (heap s)(next_addr s \<mapsto> img), next_addr = Suc (next_addr s)\<rparr>)"

text \<open>An in-place operation on the array at an address.\<close>

definition in_place :: "nat \<Rightarrow> (image \<Rightarrow> image) \<Rightarrow> store \<Rightarrow> store" where
  "in_place a f s = s\<lparr>heap := (heap s)(a := map_option f (heap s a))\<rparr>"

text \<open>\<^verbatim>\<open>a.copy()\<close>: a new array with the contents of the one at \<open>a\<close>.\<close>

definition copy_array :: "nat \<Rightarrow> store \<Rightarrow> nat \<times> store" where
  "copy_array a s = alloc (the (heap s a)) s"

fun draw_loop :: "opencv \<Rightarrow> nat \<Rightarrow> circle list \<Rightarrow> store \<Rightarrow> store" where
  "draw_loop cv output [] s = s"
| "draw_loop cv output ((x, y, r) # cs) s =
     (let s = in_place output (\<lambda>img. cv_circle cv img (x, y) r [0, 255, 0] 2) s;
          s = in_place output (\<lambda>img. cv_circle cv img (x, y) 3 [0, 0, 255] (- 1)) s;
          s = in_place output
                (\<lambda>img. cv_putText cv img (''r='' @ str_int r) (x - 20, y - r - 10) (1 / 2)
                          [255, 255, 255] 2) s
      in draw_loop cv output cs s)"

text \<open>
  The result is the address of \<^verbatim>\<open>output\<close>, the files written and the final store.
  Reading an unreadable file gives \<^verbatim>\<open>None\<close>, whose \<^verbatim>\<open>copy\<close> raises. The argument
  \<^verbatim>\<open>circles\<close> is an array of circles or \<^verbatim>\<open>None\<close>; iterating over \<^verbatim>\<open>None\<close> raises
  \<^verbatim>\<open>TypeError\<close>, after the copy was made and before anything is drawn or written.
\<close>

definition draw_circles ::
  "opencv \<Rightarrow> filesystem \<Rightarrow> string \<Rightarrow> circle list option \<Rightarrow> string option \<Rightarrow> store
     \<Rightarrow> error + nat \<times> (string \<times> image) list \<times> store" where
  "draw_circles cv fs image_path circles output_path s =
     (case imread fs image_path of
        None \<Rightarrow> Inl AttributeError
      | Some decoded \<Rightarrow>
          let (img, s) = alloc decoded s;
              (output, s) = copy_array img s
          in case circles of
               None \<Rightarrow> Inl TypeError
             | Some cs \<Rightarrow>
                 let s = draw_loop cv output cs s;
                     written = (case output_path of
                                  None \<Rightarrow> []
                                | Some p \<Rightarrow> if p \<noteq> [] then [(p, the (heap s output))] else [])
                 in Inr (output, written, s))"

subsection \<open>Concrete inputs\<close>

text \<open>
  A 5 by 6 colour image, a file system holding it, and an instance of the OpenCV
  parameters, used to evaluate the definitions: its Hough search rejects a
  non-positive \<^verbatim>\<open>dp\<close>, \<^verbatim>\<open>minDist\<close>, \<^verbatim>\<open>param1\<close> or \<^verbatim>\<open>param2\<close> and otherwise reports one
  circle; a filled circle covers the Euclidean disc.
\<close>

definition example_image :: image where
  "example_image = \<lparr>shape0 = 5, shape1 = 6, item = (\<lambda>i j. [of_nat (10 * i + j), 7, 200])\<rparr>"

definition example_fs :: filesystem where
  "example_fs path =
     (if path = ''a.png'' then Some example_image
      else if path = ''empty.png'' then Some \<lparr>shape0 = 0, shape1 = 6, item = (\<lambda>i j. [])\<rparr>
      else None)"

definition example_cv :: opencv where
  "example_cv =
     \<lparr>cvtColor_BGR2GRAY = (\<lambda>a. \<lparr>shape0 = shape0 a, shape1 = shape1 a, item = (\<lambda>i j. hd (item a i j))\<rparr>),
      medianBlur = (\<lambda>g k. g),
      HoughCircles = (\<lambda>g dp min_dist param1 param2 rmin rmax.
         if dp \<le> 0 \<or> min_dist \<le> 0 \<or> param1 \<le> 0 \<or> param2 \<le> 0 then Inl (CvError ''out of range'')
         else Inr (Some [(5 / 2, 7 / 2, 5 / 4)])),
      circle_covers = (\<lambda>(cx, cy) r t (px, py).
         if t < 0 then (px - cx)\<^sup>2 + (py - cy)\<^sup>2 \<le> r\<^sup>2
         else (px - cx)\<^sup>2 + (py - cy)\<^sup>2 = r\<^sup>2),
      putText_covers = (\<lambda>txt org scale t p. False)\<rparr>"

section \<open>Properties\<close>

subsection \<open>Evaluation of the concrete inputs\<close>

lemma imread_example: "imread example_fs ''a.png'' = Some example_image"
  by (simp add: imread_def example_fs_def example_image_def)

lemma imread_example_none: "imread example_fs ''missing.png'' = None"  "imread example_fs ''empty.png'' = None"
  by (simp_all add: imread_def example_fs_def example_image_def)

lemma np_round_ex: "np_round (5/2) = 2" "np_round (7/2) = 4" "np_round (5/4) = 1"
  by (simp_all add: np_round_def Let_def)

subsection \<open>Statistics\<close>

text \<open>
  C3. For a detection result with zero circles, whether absent (\<^verbatim>\<open>None\<close>) or an empty
  array, \<^verbatim>\<open>get_circle_info\<close> returns the dictionary with the single entry
  \<open>count = 0\<close>: no mean, minimum, maximum or standard deviation is present.
\<close>

theorem get_circle_info_empty:
  "get_circle_info None = [(''count'', PyInt 0)]
   \<and> get_circle_info (Some []) = [(''count'', PyInt 0)]
   \<and> map fst (get_circle_info None) = [''count'']
   \<and> map fst (get_circle_info (Some [])) = [''count'']"
  by (simp add: get_circle_info_def)

lemma sum_list_lower: "\<forall>x\<in>set xs. m \<le> x \<Longrightarrow> m * int (length xs) \<le> sum_list xs"
proof (induction xs)
  case Nil
  then show ?case by simp
next
  case (Cons a xs)
  then have "m \<le> a" and "m * int (length xs) \<le> sum_list xs" by simp_all
  then show ?case by (simp add: algebra_simps)
qed

lemma sum_list_upper: "\<forall>x\<in>set xs. x \<le> m \<Longrightarrow> sum_list xs \<le> m * int (length xs)"
proof (induction xs)
  case Nil
  then show ?case by simp
next
  case (Cons a xs)
  then have "a \<le> m" and "sum_list xs \<le> m * int (length xs)" by simp_all
  then show ?case by (simp add: algebra_simps)
qed

lemma np_mean_bounds:
  assumes "xs \<noteq> []"
  shows "real_of_int (np_min xs) \<le> np_mean xs" and "np_mean xs \<le> real_of_int (np_max xs)"
proof -
  have n: "0 < real (length xs)" using assms by simp
  have "np_min xs * int (length xs) \<le> sum_list xs"
    unfolding np_min_def by (rule sum_list_lower) simp
  then have "real_of_int (np_min xs * int (length xs)) \<le> real_of_int (sum_list xs)"
    by (rule of_int_le_iff [THEN iffD2])
  then have "real_of_int (np_min xs) * real (length xs) \<le> real_of_int (sum_list xs)"
    by simp
  then show "real_of_int (np_min xs) \<le> np_mean xs"
    unfolding np_mean_def using n by (simp add: pos_le_divide_eq)
  have "sum_list xs \<le> np_max xs * int (length xs)"
    unfolding np_max_def by (rule sum_list_upper) simp
  then have "real_of_int (sum_list xs) \<le> real_of_int (np_max xs * int (length xs))"
    by (rule of_int_le_iff [THEN iffD2])
  then have "real_of_int (sum_list xs) \<le> real_of_int (np_max xs) * real (length xs)"
    by simp
  then show "np_mean xs \<le> real_of_int (np_max xs)"
    unfolding np_mean_def using n by (simp add: pos_divide_le_eq)
qed

lemma np_std_nonneg: "0 \<le> np_std xs"
  unfolding np_std_def
  by (intro real_sqrt_ge_zero divide_nonneg_nonneg sum_list_nonneg) auto

lemma np_std_population:
  "xs \<noteq> [] \<Longrightarrow> (np_std xs)\<^sup>2 * real (length xs) = (\<Sum>x\<leftarrow>xs. (real_of_int x - np_mean xs)\<^sup>2)"
proof -
  assume "xs \<noteq> []"
  have nn: "0 \<le> sum_list (map (\<lambda>x. \<bar>real_of_int x - np_mean xs\<bar> ^ 2) xs) / real (length xs)"
    by (intro divide_nonneg_nonneg sum_list_nonneg) auto
  show ?thesis unfolding np_std_def using nn \<open>xs \<noteq> []\<close> by simp
qed

text \<open>
  C4. For a detection result with at least one circle, \<^verbatim>\<open>get_circle_info\<close> returns the
  count, a float mean, integer minimum and maximum, a float standard deviation and the
  per-circle list, in this order. The minimum and the maximum are radii of the input
  that bound all radii, the mean times the count is the sum of the radii, the minimum is
  at most the mean and the mean at most the maximum, the standard deviation is
  non-negative and its square times the count is the sum of the squared deviations from the
  mean (division by N, the population form), and the i-th entry of the list holds the
  integers x, y and radius of the i-th circle.
\<close>

theorem get_circle_info_statistics:
  assumes "circles \<noteq> []"
  shows "\<exists>mean lo hi sd entries.
           get_circle_info (Some circles) =
             [(''count'', PyInt (int (length circles))),
              (''average_radius'', PyFloat mean),
              (''min_radius'', PyInt lo),
              (''max_radius'', PyInt hi),
              (''std_radius'', PyFloat sd),
              (''circles'', PyList entries)]
         \<and> real_of_int lo \<le> mean \<and> mean \<le> real_of_int hi \<and> 0 \<le> sd
         \<and> mean * real (length circles) = real_of_int (\<Sum>c\<leftarrow>circles. snd (snd c))
         \<and> sd\<^sup>2 * real (length circles) = (\<Sum>c\<leftarrow>circles. (real_of_int (snd (snd c)) - mean)\<^sup>2)
         \<and> lo \<in> (\<lambda>c. snd (snd c)) ` set circles \<and> (\<forall>c\<in>set circles. lo \<le> snd (snd c))
         \<and> hi \<in> (\<lambda>c. snd (snd c)) ` set circles \<and> (\<forall>c\<in>set circles. snd (snd c) \<le> hi)
         \<and> length entries = length circles
         \<and> (\<forall>i<length circles.
               entries ! i =
                 PyDict [(''x'', PyInt (fst (circles ! i))),
                         (''y'', PyInt (fst (snd (circles ! i)))),
                         (''radius'', PyInt (snd (snd (circles ! i))))])"
proof -
  define radii where "radii = map (\<lambda>(x, y, r). r) circles"
  have radii_alt: "radii = map (\<lambda>c. snd (snd c)) circles"
    unfolding radii_def by (simp add: case_prod_beta)
  have ne: "radii \<noteq> []" using assms by (simp add: radii_def)
  have len: "length radii = length circles" by (simp add: radii_def)
  have info: "get_circle_info (Some circles) =
             [(''count'', PyInt (int (length circles))),
              (''average_radius'', PyFloat (np_mean radii)),
              (''min_radius'', PyInt (np_min radii)),
              (''max_radius'', PyInt (np_max radii)),
              (''std_radius'', PyFloat (np_std radii)),
              (''circles'', PyList (map circle_entry circles))]"
    using assms by (simp add: get_circle_info_def radii_def Let_def)
  have mean: "np_mean radii * real (length circles) = real_of_int (\<Sum>c\<leftarrow>circles. snd (snd c))"
    using assms by (simp add: np_mean_def radii_alt)
  have sd: "(np_std radii)\<^sup>2 * real (length circles)
              = (\<Sum>c\<leftarrow>circles. (real_of_int (snd (snd c)) - np_mean radii)\<^sup>2)"
    using np_std_population [OF ne] by (simp add: len) (simp add: radii_alt comp_def)
  have fin: "finite (set radii)" "set radii \<noteq> {}" using ne by simp_all
  have lo_in: "np_min radii \<in> (\<lambda>c. snd (snd c)) ` set circles"
    using Min_in [OF fin] by (simp add: np_min_def radii_alt)
  have hi_in: "np_max radii \<in> (\<lambda>c. snd (snd c)) ` set circles"
    using Max_in [OF fin] by (simp add: np_max_def radii_alt)
  have lo_le: "\<forall>c\<in>set circles. np_min radii \<le> snd (snd c)"
    by (simp add: np_min_def radii_alt)
  have hi_ge: "\<forall>c\<in>set circles. snd (snd c) \<le> np_max radii"
    by (simp add: np_max_def radii_alt)
  have entries: "\<forall>i<length circles.
               map circle_entry circles ! i =
                 PyDict [(''x'', PyInt (fst (circles ! i))),
                         (''y'', PyInt (fst (snd (circles ! i)))),
                         (''radius'', PyInt (snd (snd (circles ! i))))]"
    by (simp add: circle_entry_def case_prod_beta)
  show ?thesis
    using info np_mean_bounds [OF ne] np_std_nonneg [of radii] mean sd lo_in hi_in lo_le hi_ge entries
    by (intro exI [of _ "np_mean radii"] exI [of _ "np_min radii"] exI [of _ "np_max radii"]
          exI [of _ "np_std radii"] exI [of _ "map circle_entry circles"]) simp
qed

text \<open>
  The theorem at two circles of radius 3 and 5.
\<close>

theorem get_circle_info_statistics_witness:
  "\<exists>mean lo hi sd entries.
           get_circle_info (Some [(10, 20, 3), (40, 50, 5)]) =
             [(''count'', PyInt 2),
              (''average_radius'', PyFloat mean),
              (''min_radius'', PyInt lo),
              (''max_radius'', PyInt hi),
              (''std_radius'', PyFloat sd),
              (''circles'', PyList entries)]
         \<and> real_of_int lo \<le> mean \<and> mean \<le> real_of_int hi \<and> 0 \<le> sd
         \<and> mean * 2 = 8
         \<and> sd\<^sup>2 * 2 = (3 - mean)\<^sup>2 + (5 - mean)\<^sup>2
         \<and> entries = [PyDict [(''x'', PyInt 10), (''y'', PyInt 20), (''radius'', PyInt 3)],
                        PyDict [(''x'', PyInt 40), (''y'', PyInt 50), (''radius'', PyInt 5)]]"
proof -
  obtain mean lo hi sd entries where h:
    "get_circle_info (Some [(10, 20, 3), (40, 50, 5)]) =
             [(''count'', PyInt (int (length [(10::int, 20::int, 3::int), (40, 50, 5)]))),
              (''average_radius'', PyFloat mean),
              (''min_radius'', PyInt lo),
              (''max_radius'', PyInt hi),
              (''std_radius'', PyFloat sd),
              (''circles'', PyList entries)]"
    "real_of_int lo \<le> mean" "mean \<le> real_of_int hi" "0 \<le> sd"
    "mean * real (length [(10::int, 20::int, 3::int), (40, 50, 5)]) = real_of_int (\<Sum>c\<leftarrow>[(10::int, 20::int, 3::int), (40, 50, 5)]. snd (snd c))"
    "sd\<^sup>2 * real (length [(10::int, 20::int, 3::int), (40, 50, 5)]) = (\<Sum>c\<leftarrow>[(10::int, 20::int, 3::int), (40, 50, 5)]. (real_of_int (snd (snd c)) - mean)\<^sup>2)"
    "length entries = length [(10::int, 20::int, 3::int), (40, 50, 5)]"
    "\<forall>i<length [(10::int, 20::int, 3::int), (40, 50, 5)].
               entries ! i =
                 PyDict [(''x'', PyInt (fst ([(10::int, 20::int, 3::int), (40, 50, 5)] ! i))),
                         (''y'', PyInt (fst (snd ([(10::int, 20::int, 3::int), (40, 50, 5)] ! i)))),
                         (''radius'', PyInt (snd (snd ([(10::int, 20::int, 3::int), (40, 50, 5)] ! i))))]"
    using get_circle_info_statistics [of "[(10, 20, 3), (40, 50, 5)]"] by auto
  from h(7) obtain e0 e1 where e: "entries = [e0, e1]"
    by (cases entries; cases "tl entries"; cases "tl (tl entries)") auto
  from h(8) have "entries ! 0 = PyDict [(''x'', PyInt 10), (''y'', PyInt 20), (''radius'', PyInt 3)]"
    and "entries ! 1 = PyDict [(''x'', PyInt 40), (''y'', PyInt 50), (''radius'', PyInt 5)]"
    by auto
  with e have e': "entries = [PyDict [(''x'', PyInt 10), (''y'', PyInt 20), (''radius'', PyInt 3)],
                        PyDict [(''x'', PyInt 40), (''y'', PyInt 50), (''radius'', PyInt 5)]]"
    by simp
  show ?thesis
    using h(1-6) e'
    by (intro exI [of _ mean] exI [of _ lo] exI [of _ hi] exI [of _ sd] exI [of _ entries]) simp
qed

subsection \<open>Detection\<close>

text \<open>
  C1, as stated, fails. With \<^verbatim>\<open>min_radius = 50\<close> and \<^verbatim>\<open>max_radius = 10\<close> an unreadable
  file gives the \<^verbatim>\<open>ValueError\<close> of the image check, not a parameter error, and on a
  readable file the result is that of the Hough search: \<^verbatim>\<open>detect_circles\<close> compares no
  parameter with anything.
\<close>

theorem detect_circles_parameters_counterexample:
  "detect_circles example_cv \<lparr>min_radius = 50, max_radius = 10\<rparr> example_fs ''missing.png'' (12 / 10) 100 50 30
     = Inl (ValueError ''Cannot read image from missing.png'')
   \<and> detect_circles example_cv \<lparr>min_radius = 50, max_radius = 10\<rparr> example_fs ''a.png'' (12 / 10) 100 50 30
     = Inr (Some [(2, 4, 1)])"
  by (simp add: detect_circles_def imread_example imread_example_none example_cv_def np_round_ex)

text \<open>
  C1, amended. \<^verbatim>\<open>detect_circles\<close> validates no parameter itself. For an unreadable
  image it fails with \<^verbatim>\<open>ValueError\<close> whatever the parameters are. For a readable image it
  passes \<^verbatim>\<open>dp\<close>, \<^verbatim>\<open>min_dist\<close>, \<^verbatim>\<open>param1\<close>, \<^verbatim>\<open>param2\<close> and the detector's radius bounds
  unchanged to the Hough search, run on the grayscale, median-blurred image: it fails
  exactly when the search fails, with the search's error, and otherwise returns the
  search's circles rounded to integers.
\<close>

theorem detect_circles_no_validation:
  "(imread fs image_path = None \<longrightarrow>
      detect_circles cv self fs image_path dp min_dist param1 param2
        = Inl (ValueError (''Cannot read image from '' @ image_path)))
   \<and> (\<forall>img. imread fs image_path = Some img \<longrightarrow>
        (\<forall>e. detect_circles cv self fs image_path dp min_dist param1 param2 = Inl e
              \<longleftrightarrow> HoughCircles cv (medianBlur cv (cvtColor_BGR2GRAY cv img) 5) dp min_dist
                    param1 param2 (min_radius self) (max_radius self) = Inl e)
      \<and> (\<forall>found. detect_circles cv self fs image_path dp min_dist param1 param2 = Inr found
              \<longleftrightarrow> (\<exists>raw. HoughCircles cv (medianBlur cv (cvtColor_BGR2GRAY cv img) 5) dp min_dist
                    param1 param2 (min_radius self) (max_radius self) = Inr raw
                  \<and> found = map_option (map (\<lambda>(x, y, r). (np_round x, np_round y, np_round r))) raw)))"
  by (auto simp: detect_circles_def Let_def split: option.splits sum.splits)

text \<open>
  The theorem on the readable example file: \<^verbatim>\<open>dp = 0\<close> fails inside the search, after
  the image was read and preprocessed; \<^verbatim>\<open>dp = 1.2\<close> gives the rounded circle.
\<close>

theorem detect_circles_no_validation_witness:
  "imread example_fs ''a.png'' = Some example_image
   \<and> detect_circles example_cv \<lparr>min_radius = 10, max_radius = 200\<rparr> example_fs ''a.png''
       0 100 50 30 = Inl (CvError ''out of range'')
   \<and> detect_circles example_cv \<lparr>min_radius = 10, max_radius = 200\<rparr> example_fs ''a.png''
       (12 / 10) 100 50 30 = Inr (Some [(2, 4, 1)])"
proof -
  have h0: "HoughCircles example_cv
              (medianBlur example_cv (cvtColor_BGR2GRAY example_cv example_image) 5)
              0 100 50 30 10 200 = Inl (CvError ''out of range'')"
    by (simp add: example_cv_def)
  have h1: "HoughCircles example_cv
              (medianBlur example_cv (cvtColor_BGR2GRAY example_cv example_image) 5)
              (12 / 10) 100 50 30 10 200 = Inr (Some [(5 / 2, 7 / 2, 5 / 4)])"
    by (simp add: example_cv_def)
  show ?thesis
    using detect_circles_no_validation [of example_fs "''a.png''" example_cv
        "\<lparr>min_radius = 10, max_radius = 200\<rparr>" 0 100 50 30]
      detect_circles_no_validation [of example_fs "''a.png''" example_cv
        "\<lparr>min_radius = 10, max_radius = 200\<rparr>" "12 / 10" 100 50 30]
      imread_example h0 h1
    by (simp add: np_round_ex)
qed

text \<open>
  C8. When the file is missing or unreadable, or decodes to an image with no rows or no
  columns, \<^verbatim>\<open>detect_circles\<close> raises the \<^verbatim>\<open>ValueError\<close> of its image check; no detection
  result is produced.
\<close>

theorem detect_circles_invalid_image:
  assumes "fs image_path = None
           \<or> (\<exists>img. fs image_path = Some img \<and> (shape0 img = 0 \<or> shape1 img = 0))"
  shows "detect_circles cv self fs image_path dp min_dist param1 param2
           = Inl (ValueError (''Cannot read image from '' @ image_path))"
proof -
  from assms have "imread fs image_path = None"
    by (auto simp: imread_def)
  then show ?thesis by (simp add: detect_circles_def)
qed

text \<open>
  The theorem on a missing file and on a file that decodes to zero rows.
\<close>

theorem detect_circles_invalid_image_witness:
  "example_fs ''missing.png'' = None
   \<and> detect_circles example_cv \<lparr>min_radius = 10, max_radius = 200\<rparr> example_fs ''missing.png''
       (12 / 10) 100 50 30 = Inl (ValueError ''Cannot read image from missing.png'')
   \<and> (\<exists>img. example_fs ''empty.png'' = Some img \<and> shape0 img = 0)
   \<and> detect_circles example_cv \<lparr>min_radius = 10, max_radius = 200\<rparr> example_fs ''empty.png''
       (12 / 10) 100 50 30 = Inl (ValueError ''Cannot read image from empty.png'')"
proof -
  have a: "example_fs ''missing.png'' = None" by (simp add: example_fs_def)
  have b: "\<exists>img. example_fs ''empty.png'' = Some img \<and> shape0 img = 0"
    by (simp add: example_fs_def)
  from b have b': "example_fs ''empty.png'' = None
      \<or> (\<exists>img. example_fs ''empty.png'' = Some img \<and> (shape0 img = 0 \<or> shape1 img = 0))"
    by blast
  show ?thesis
    using a b b'
      detect_circles_invalid_image [of example_fs "''missing.png''" example_cv
        "\<lparr>min_radius = 10, max_radius = 200\<rparr>" "12 / 10" 100 50 30]
      detect_circles_invalid_image [of example_fs "''empty.png''" example_cv
        "\<lparr>min_radius = 10, max_radius = 200\<rparr>" "12 / 10" 100 50 30]
    by simp
qed

subsection \<open>Extraction\<close>

lemma clip_index_nonneg: "0 \<le> i \<Longrightarrow> clip_index n i = min n (nat i)"
  by (simp add: clip_index_def)

lemma slice_bounds_ordered:
  "0 \<le> a \<Longrightarrow> a \<le> b \<Longrightarrow> b \<le> int n \<Longrightarrow> slice_bounds n a b = (nat a, nat b)"
  by (auto simp: slice_bounds_def clip_index_def Let_def)

lemma slice_bounds_start:
  assumes "0 \<le> a" and "slice_bounds n a b = (s, e)" and "k < e - s"
  shows "s = nat a" and "s + k < n"
proof -
  from assms(1) have s: "s = min n (nat a)" and e: "e \<le> n"
    using assms(2) by (auto simp: slice_bounds_def clip_index_def Let_def split: if_splits)
  from assms(3) e have "s + k < n" by arith
  then show "s + k < n" .
  with s show "s = nat a" by arith
qed

text \<open>
  C10. For a circle with non-negative radius whose centre is a pixel of the image, the
  crop bounds satisfy \<open>0 \<le> x1 \<le> x2 \<le> width\<close> and \<open>0 \<le> y1 \<le> y2 \<le> height\<close>; the crop has
  \<open>y2 - y1\<close> rows and \<open>x2 - x1\<close> columns, and each of its pixels is read from a position
  inside the source image.
\<close>

theorem crop_box_within_image:
  assumes "0 \<le> r" and "0 \<le> x" and "x < int (shape1 img)" and "0 \<le> y" and "y < int (shape0 img)"
    and "crop_box img (x, y, r) = (x1, y1, x2, y2)"
  shows "0 \<le> x1 \<and> x1 \<le> x2 \<and> x2 \<le> int (shape1 img)
       \<and> 0 \<le> y1 \<and> y1 \<le> y2 \<and> y2 \<le> int (shape0 img)
       \<and> shape0 (slice2 img y1 y2 x1 x2) = nat (y2 - y1)
       \<and> shape1 (slice2 img y1 y2 x1 x2) = nat (x2 - x1)
       \<and> (\<forall>i j. i < nat (y2 - y1) \<and> j < nat (x2 - x1) \<longrightarrow>
             nat y1 + i < shape0 img \<and> nat x1 + j < shape1 img
             \<and> item (slice2 img y1 y2 x1 x2) i j = item img (nat y1 + i) (nat x1 + j))"
proof -
  from assms have b: "0 \<le> x1" "x1 \<le> x2" "x2 \<le> int (shape1 img)"
     "0 \<le> y1" "y1 \<le> y2" "y2 \<le> int (shape0 img)"
    by (auto simp: crop_box_def Let_def)
  have sx: "slice_bounds (shape1 img) x1 x2 = (nat x1, nat x2)"
    using b by (simp add: slice_bounds_ordered)
  have sy: "slice_bounds (shape0 img) y1 y2 = (nat y1, nat y2)"
    using b by (simp add: slice_bounds_ordered)
  have sl: "slice2 img y1 y2 x1 x2 =
      \<lparr>shape0 = nat y2 - nat y1, shape1 = nat x2 - nat x1,
       item = (\<lambda>i j. item img (nat y1 + i) (nat x1 + j))\<rparr>"
    by (simp add: slice2_def sx sy)
  show ?thesis using b by (auto simp: sl)
qed

text \<open>
  The theorem for the circle (0, 4, 2) near the lower left corner of the example image.
\<close>

theorem crop_box_within_image_witness:
  "crop_box example_image (0, 4, 2) = (0, 2, 2, 5)
   \<and> shape0 (slice2 example_image 2 5 0 2) = 3
   \<and> shape1 (slice2 example_image 2 5 0 2) = 2
   \<and> item (slice2 example_image 2 5 0 2) 2 1 = item example_image 4 1"
proof -
  have sh: "shape0 example_image = 5" "shape1 example_image = 6"
    by (simp_all add: example_image_def)
  have box: "crop_box example_image (0, 4, 2) = (0, 2, 2, 5)"
    by (simp add: crop_box_def sh)
  have "(2::nat) < nat (5 - 2) \<and> (1::nat) < nat (2 - 0)" by simp
  with crop_box_within_image [of 2 0 example_image 4 0 2 2 5] box
  show ?thesis by (simp add: sh)
qed

lemma map2_AND_same: "map2 (AND) p p = (p :: 8 word list)"
  by (induction p) simp_all

lemma crop_box_nonneg:
  "crop_box img (x, y, r) = (x1, y1, x2, y2) \<Longrightarrow> 0 \<le> x1 \<and> 0 \<le> y1"
  by (auto simp: crop_box_def Let_def)

lemma extract_one_unfold:
  assumes "crop_box img (x, y, r) = (x1, y1, x2, y2)"
    and "slice_bounds (shape0 img) y1 y2 = (r0, r1)"
    and "slice_bounds (shape1 img) x1 x2 = (c0, c1)"
  shows "extract_one cv img (x, y, r) =
     \<lparr>shape0 = r1 - r0, shape1 = c1 - c0,
      item = (\<lambda>i j. if item (cv_circle cv (np_zeros (shape0 img) (shape1 img)) (x, y) r 255 (- 1))
                          (r0 + i) (c0 + j) \<noteq> 0
                     then item img (r0 + i) (c0 + j)
                     else map (\<lambda>c. 0) (item img (r0 + i) (c0 + j)))\<rparr>"
proof -
  let ?m = "cv_circle cv (np_zeros (shape0 img) (shape1 img)) (x, y) r 255 (- 1)"
  have sh: "shape0 ?m = shape0 img" "shape1 ?m = shape1 img"
    by (simp_all add: cv_circle_def paint_def np_zeros_def)
  have s1: "slice2 img y1 y2 x1 x2 =
      \<lparr>shape0 = r1 - r0, shape1 = c1 - c0, item = (\<lambda>i j. item img (r0 + i) (c0 + j))\<rparr>"
    using assms(2,3) by (simp add: slice2_def)
  have s2: "slice2 ?m y1 y2 x1 x2 =
      \<lparr>shape0 = r1 - r0, shape1 = c1 - c0, item = (\<lambda>i j. item ?m (r0 + i) (c0 + j))\<rparr>"
    using assms(2,3) unfolding slice2_def sh by simp
  have "extract_one cv img (x, y, r) =
      bitwise_and (slice2 img y1 y2 x1 x2) (slice2 img y1 y2 x1 x2) (slice2 ?m y1 y2 x1 x2)"
    using assms(1) by (simp add: extract_one_def Let_def)
  also have "\<dots> = \<lparr>shape0 = r1 - r0, shape1 = c1 - c0,
      item = (\<lambda>i j. if item ?m (r0 + i) (c0 + j) \<noteq> 0
                     then item img (r0 + i) (c0 + j)
                     else map (\<lambda>c. 0) (item img (r0 + i) (c0 + j)))\<rparr>"
    unfolding s1 s2 by (simp add: bitwise_and_def map2_AND_same cong: if_cong)
  finally show ?thesis .
qed

text \<open>
  C6. Every pixel \<open>(i, j)\<close> of the image extracted for a circle corresponds to the
  source pixel at row \<open>y1 + i\<close> and column \<open>x1 + j\<close>, which lies inside the source. It equals
  that source pixel where the disc mask is set there, and is zero in every channel
  elsewhere. The mask is set exactly on the pixels the filled circle covers.
\<close>

theorem extract_one_pixels:
  assumes box: "crop_box img (x, y, r) = (x1, y1, x2, y2)"
    and i: "i < shape0 (extract_one cv img (x, y, r))"
    and j: "j < shape1 (extract_one cv img (x, y, r))"
  shows "nat y1 + i < shape0 img \<and> nat x1 + j < shape1 img
       \<and> item (extract_one cv img (x, y, r)) i j =
           (if item (cv_circle cv (np_zeros (shape0 img) (shape1 img)) (x, y) r 255 (- 1))
                 (nat y1 + i) (nat x1 + j) \<noteq> 0
            then item img (nat y1 + i) (nat x1 + j)
            else replicate (length (item img (nat y1 + i) (nat x1 + j))) 0)
       \<and> (item (cv_circle cv (np_zeros (shape0 img) (shape1 img)) (x, y) r 255 (- 1))
                 (nat y1 + i) (nat x1 + j) \<noteq> 0
            \<longleftrightarrow> circle_covers cv (x, y) r (- 1) (x1 + int j, y1 + int i))"
proof -
  obtain r0 r1 where rb: "slice_bounds (shape0 img) y1 y2 = (r0, r1)"
    by (cases "slice_bounds (shape0 img) y1 y2")
  obtain c0 c1 where cb: "slice_bounds (shape1 img) x1 x2 = (c0, c1)"
    by (cases "slice_bounds (shape1 img) x1 x2")
  note u = extract_one_unfold [OF box rb cb, of cv]
  from i have i': "i < r1 - r0" by (simp add: u)
  from j have j': "j < c1 - c0" by (simp add: u)
  from crop_box_nonneg [OF box] have nn: "0 \<le> x1" "0 \<le> y1" by simp_all
  have r0: "r0 = nat y1" and ri: "r0 + i < shape0 img"
    using slice_bounds_start [OF nn(2) rb i'] by simp_all
  have c0: "c0 = nat x1" and cj: "c0 + j < shape1 img"
    using slice_bounds_start [OF nn(1) cb j'] by simp_all
  have zeros: "map (\<lambda>c. 0) p = replicate (length p) (0 :: 8 word)" for p :: "8 word list"
    by (induction p) simp_all
  have cov: "item (cv_circle cv (np_zeros (shape0 img) (shape1 img)) (x, y) r 255 (- 1))
                 (nat y1 + i) (nat x1 + j) \<noteq> 0
            \<longleftrightarrow> circle_covers cv (x, y) r (- 1) (x1 + int j, y1 + int i)"
    using nn by (simp add: cv_circle_def paint_def np_zeros_def)
  show ?thesis
    using ri cj cov unfolding u r0 c0 by (simp add: zeros)
qed

lemma extract_one_shape_in_bounds:
  assumes "0 \<le> r" "0 \<le> x - r" "x + r < int (shape1 img)" "0 \<le> y - r" "y + r < int (shape0 img)"
  shows "shape0 (extract_one cv img (x, y, r)) = nat (2 * r)
       \<and> shape1 (extract_one cv img (x, y, r)) = nat (2 * r)"
proof -
  have box: "crop_box img (x, y, r) = (x - r, y - r, x + r, y + r)"
    using assms by (simp add: crop_box_def Let_def)
  have rb: "slice_bounds (shape0 img) (y - r) (y + r) = (nat (y - r), nat (y + r))"
    using assms by (intro slice_bounds_ordered) simp_all
  have cb: "slice_bounds (shape1 img) (x - r) (x + r) = (nat (x - r), nat (x + r))"
    using assms by (intro slice_bounds_ordered) simp_all
  show ?thesis
    unfolding extract_one_unfold [OF box rb cb] using assms by simp arith
qed

text \<open>
  The theorem on the circle (2, 2, 1) of the example image: a pixel outside the disc, one
  inside it and the centre.
\<close>

theorem extract_one_pixels_witness:
  "crop_box example_image (2, 2, 1) = (1, 1, 3, 3)
   \<and> item (extract_one example_cv example_image (2, 2, 1)) 0 0 = [0, 0, 0]
   \<and> item (extract_one example_cv example_image (2, 2, 1)) 1 0 = [21, 7, 200]
   \<and> item (extract_one example_cv example_image (2, 2, 1)) 1 1 = item example_image 2 2"
proof -
  have sh: "shape0 example_image = 5" "shape1 example_image = 6"
    by (simp_all add: example_image_def)
  have box: "crop_box example_image (2, 2, 1) = (1, 1, 3, 3)"
    by (simp add: crop_box_def sh)
  have dims: "shape0 (extract_one example_cv example_image (2, 2, 1)) = 2"
    "shape1 (extract_one example_cv example_image (2, 2, 1)) = 2"
    using extract_one_shape_in_bounds [of 1 2 example_image 2 example_cv] by (simp_all add: sh)
  have cov: "\<not> circle_covers example_cv (2, 2) 1 (- 1) (1, 1)"
    "circle_covers example_cv (2, 2) 1 (- 1) (1, 2)"
    "circle_covers example_cv (2, 2) 1 (- 1) (2, 2)"
    by (simp_all add: example_cv_def)
  have px: "item example_image 1 1 = [11, 7, 200]" "item example_image 2 1 = [21, 7, 200]"
    by (simp_all add: example_image_def)
  have i0: "0 < shape0 (extract_one example_cv example_image (2, 2, 1))"
    and i1: "1 < shape0 (extract_one example_cv example_image (2, 2, 1))"
    and j0: "0 < shape1 (extract_one example_cv example_image (2, 2, 1))"
    and j1: "1 < shape1 (extract_one example_cv example_image (2, 2, 1))"
    by (simp_all add: dims)
  show ?thesis
    using box cov px
      extract_one_pixels [OF box i0 j0]
      extract_one_pixels [OF box i1 j0]
      extract_one_pixels [OF box i1 j1]
    by (simp add: numeral_2_eq_2)
qed

text \<open>
  C2, evaluated. The circle (2, 2, 1) has its bounding box, columns and rows 1 to 3,
  inside the 5 by 6 example image. The extracted image has 2 rows and 2 columns, not
  \<open>2r + 1 = 3\<close>: the slice ends before \<open>x + r\<close> and \<open>y + r\<close>, although the mask is set at
  column \<open>x + r = 3\<close> of row 2.
\<close>

theorem extract_one_shape_in_bounds_example:
  "crop_box example_image (2, 2, 1) = (1, 1, 3, 3)
   \<and> shape0 (extract_one example_cv example_image (2, 2, 1)) = 2
   \<and> shape1 (extract_one example_cv example_image (2, 2, 1)) = 2
   \<and> item (cv_circle example_cv (np_zeros 5 6) (2, 2) 1 255 (- 1)) 2 3 = 255"
proof -
  have sh: "shape0 example_image = 5" "shape1 example_image = 6"
    by (simp_all add: example_image_def)
  have box: "crop_box example_image (2, 2, 1) = (1, 1, 3, 3)"
    by (simp add: crop_box_def sh)
  have dims: "shape0 (extract_one example_cv example_image (2, 2, 1)) = 2
       \<and> shape1 (extract_one example_cv example_image (2, 2, 1)) = 2"
    using extract_one_shape_in_bounds [of 1 2 example_image 2 example_cv] by (simp add: sh)
  have m: "item (cv_circle example_cv (np_zeros 5 6) (2, 2) 1 255 (- 1)) 2 3 = 255"
    by (simp add: cv_circle_def paint_def example_cv_def)
  from box dims m show ?thesis by simp
qed

lemma extract_loop_Some:
  "extract_loop cv (Some img) output_dir i cs (paths, written) =
     Inr (paths @ map (\<lambda>(k, c). circle_path output_dir k) (enumerate i cs),
          written @ map (\<lambda>(k, c). (circle_path output_dir k, extract_one cv img c)) (enumerate i cs))"
  by (induction cs arbitrary: i paths written) (simp_all add: Let_def)

text \<open>
  For an array of circles: the empty array gives the empty list and writes nothing, also
  when the file is unreadable. For a readable image one path is returned and one file
  written per circle, in the order of the circles: the i-th file is
  \<^verbatim>\<open>circle_<i+1>.png\<close> in the output directory and holds the image extracted for the i-th
  circle.
\<close>

lemma extract_circles_array:
  "extract_circles cv fs image_path (Some []) output_dir = Inr ([], [])
   \<and> (\<forall>img. imread fs image_path = Some img \<longrightarrow>
        (\<exists>paths written.
            extract_circles cv fs image_path (Some circles) output_dir = Inr (paths, written)
          \<and> length paths = length circles
          \<and> length written = length circles
          \<and> (\<forall>i<length circles.
                paths ! i = circle_path output_dir i
              \<and> written ! i = (circle_path output_dir i, extract_one cv img (circles ! i)))))"
proof (intro conjI allI impI)
  show "extract_circles cv fs image_path (Some []) output_dir = Inr ([], [])"
    by (simp add: extract_circles_def)
next
  fix img
  assume r: "imread fs image_path = Some img"
  have e: "extract_circles cv fs image_path (Some circles) output_dir =
      Inr (map (\<lambda>(k, c). circle_path output_dir k) (enumerate 0 circles),
           map (\<lambda>(k, c). (circle_path output_dir k, extract_one cv img c)) (enumerate 0 circles))"
    by (simp add: extract_circles_def r extract_loop_Some)
  show "\<exists>paths written.
            extract_circles cv fs image_path (Some circles) output_dir = Inr (paths, written)
          \<and> length paths = length circles
          \<and> length written = length circles
          \<and> (\<forall>i<length circles.
                paths ! i = circle_path output_dir i
              \<and> written ! i = (circle_path output_dir i, extract_one cv img (circles ! i)))"
    unfolding e by (simp add: nth_enumerate_eq)
qed


subsection \<open>Annotation\<close>

lemma in_place_other: "a \<noteq> output \<Longrightarrow> heap (in_place output f s) a = heap s a"
  by (simp add: in_place_def)

lemma draw_loop_frame: "a \<noteq> output \<Longrightarrow> heap (draw_loop cv output cs s) a = heap s a"
proof (induction cs arbitrary: s)
  case Nil
  then show ?case by simp
next
  case (Cons c cs)
  obtain x y r where c: "c = (x, y, r)" by (cases c)
  show ?case unfolding c using Cons by (simp add: Let_def in_place_other)
qed

text \<open>
  For an array of circles on a readable image: \<^verbatim>\<open>draw_circles\<close> returns a buffer other
  than the one read from the file. Whatever the circles are, the buffer read from the
  file still holds the decoded image afterwards, and no other buffer of the store
  changes: every drawing call writes to the copy. For the empty array the returned
  buffer holds the decoded image.
\<close>

lemma draw_circles_array_on_copy:
  assumes "imread fs image_path = Some decoded"
  shows "\<exists>output written s'.
           draw_circles cv fs image_path (Some circles) output_path s = Inr (output, written, s')
         \<and> output \<noteq> next_addr s
         \<and> heap s' (next_addr s) = Some decoded
         \<and> (\<forall>a. a \<noteq> output \<and> a \<noteq> next_addr s \<longrightarrow> heap s' a = heap s a)
         \<and> (circles = [] \<longrightarrow> heap s' output = Some decoded)"
proof -
  define n where "n = next_addr s"
  define s1 where "s1 = \<lparr>heap = (heap s)(n \<mapsto> decoded), next_addr = Suc n\<rparr>"
  define s2 where "s2 = \<lparr>heap = (heap s1)(Suc n \<mapsto> decoded), next_addr = Suc (Suc n)\<rparr>"
  define s3 where "s3 = draw_loop cv (Suc n) circles s2"
  have a1: "alloc decoded s = (n, s1)" by (simp add: alloc_def n_def s1_def)
  have a2: "copy_array n s1 = (Suc n, s2)" by (simp add: copy_array_def alloc_def s1_def s2_def)
  have d: "\<exists>written. draw_circles cv fs image_path (Some circles) output_path s
             = Inr (Suc n, written, s3)"
    by (simp add: draw_circles_def assms a1 a2 s3_def Let_def)
  have src: "heap s3 n = Some decoded"
    unfolding s3_def by (simp add: draw_loop_frame s2_def s1_def)
  have others: "\<forall>a. a \<noteq> Suc n \<and> a \<noteq> n \<longrightarrow> heap s3 a = heap s a"
    unfolding s3_def by (simp add: draw_loop_frame s2_def s1_def)
  have empty: "circles = [] \<longrightarrow> heap s3 (Suc n) = Some decoded"
    unfolding s3_def by (simp add: s2_def)
  from d obtain written where
    "draw_circles cv fs image_path (Some circles) output_path s = Inr (Suc n, written, s3)" ..
  with src others empty show ?thesis
    unfolding n_def [symmetric] by (intro exI [of _ "Suc n"] exI [of _ written] exI [of _ s3]) simp
qed


end
